theory Spec2Isabelle
  imports Main "HOL-Library.Word" "HOL-Library.Product_Order"
begin

unbundle bit_operations_syntax

section \<open>Data model\<close>

text \<open>
  Machine integers are words of the width the C++ declares: \<open>uint64_t\<close> heights, fees
  and rewards wrap modulo \<open>2 ^ 64\<close>, feature bytes are 8 bits wide, a blinding factor
  is a 32-byte scalar. Commitments are elements of a commutative group \<open>'c\<close>; the
  group itself (secp256k1 in the node) is not under the source tree and stays a type
  parameter.
\<close>

type_synonym u8 = "8 word"
type_synonym u64 = "64 word"
type_synonym BlindingFactor = "256 word"

record 'c TransactionInput =
  in_features :: u8
  in_commitment :: 'c

record 'c TransactionOutput =
  out_features :: u8
  out_commitment :: 'c
  out_rangeproof :: "u8 list"

record 'c TransactionKernel =
  kern_features :: u8
  kern_fee :: u64
  kern_lock_height :: u64
  kern_excess :: 'c
  kern_signature :: "u8 list"

record 'c TransactionBody =
  body_inputs :: "'c TransactionInput list"
  body_outputs :: "'c TransactionOutput list"
  body_kernels :: "'c TransactionKernel list"

record BlockHeader =
  hdr_height :: u64
  hdr_total_kernel_offset :: BlindingFactor

text \<open>\<open>FullBlock\<close> (include/Core/Models/FullBlock.h): header, body and the mutable
  \<open>m_validated\<close> flag.\<close>

record 'c FullBlock =
  m_pBlockHeader :: BlockHeader
  m_transactionBody :: "'c TransactionBody"
  m_validated :: bool

definition GetHeight :: "'c FullBlock \<Rightarrow> u64" where
  "GetHeight block = hdr_height (m_pBlockHeader block)"

definition GetTotalKernelOffset :: "'c FullBlock \<Rightarrow> BlindingFactor" where
  "GetTotalKernelOffset block = hdr_total_kernel_offset (m_pBlockHeader block)"

definition GetInputs :: "'c FullBlock \<Rightarrow> 'c TransactionInput list" where
  "GetInputs block = body_inputs (m_transactionBody block)"

definition GetOutputs :: "'c FullBlock \<Rightarrow> 'c TransactionOutput list" where
  "GetOutputs block = body_outputs (m_transactionBody block)"

definition GetKernels :: "'c FullBlock \<Rightarrow> 'c TransactionKernel list" where
  "GetKernels block = body_kernels (m_transactionBody block)"

definition WasValidated :: "'c FullBlock \<Rightarrow> bool" where
  "WasValidated block = m_validated block"

definition MarkAsValidated :: "'c FullBlock \<Rightarrow> 'c FullBlock" where
  "MarkAsValidated block = block\<lparr>m_validated := True\<rparr>"

text \<open>The consensus constants live in Consensus/Common.h and the feature enums in the
  transaction model headers, none of which is under the source tree: they are taken as
  parameters.\<close>

record Consensus =
  REWARD :: u64
  COINBASE_OUTPUT :: u8
  COINBASE_KERNEL :: u8

section \<open>Commitment arithmetic\<close>

text \<open>\<open>v\<cdot>P\<close>: the point \<open>P\<close> added to itself \<open>v\<close> times.\<close>

primrec scalar_mult :: "nat \<Rightarrow> 'c::ab_group_add \<Rightarrow> 'c" where
  "scalar_mult 0 P = 0"
| "scalar_mult (Suc n) P = P + scalar_mult n P"

text \<open>Modelled from the spec: \<open>Crypto::CommitTransparent\<close> is implemented in
  Crypto.cpp, which is not under the source tree. The spec's \<open>commit(v, r)\<close> is
  \<open>v\<cdot>H + r\<cdot>G\<close>; the transparent commitment has blinding factor zero.\<close>

definition commit_transparent :: "'c::ab_group_add \<Rightarrow> u64 \<Rightarrow> 'c" where
  "commit_transparent H v = scalar_mult (unat v) H"

text \<open>Modelled from the spec: \<open>Crypto::AddCommitments\<close> is implemented in Crypto.cpp,
  which is not under the source tree. It is the spec's \<open>commit_sum(pos, neg)\<close>: the sum
  of the positive commitments minus the sum of the negative ones.\<close>

definition commit_sum :: "'c::ab_group_add list \<Rightarrow> 'c list \<Rightarrow> 'c" where
  "commit_sum positive negative = sum_list positive - sum_list negative"

text \<open>The legacy validator calls the crypto library through functions that return a
  \<open>unique_ptr\<close>, null on failure. They are parameters of the model.\<close>

record 'c Crypto =
  CommitTransparent :: "u64 \<Rightarrow> 'c option"
  AddCommitments :: "'c list \<Rightarrow> 'c list \<Rightarrow> 'c option"
  AddBlindingFactors :: "BlindingFactor list \<Rightarrow> BlindingFactor list \<Rightarrow> BlindingFactor option"

text \<open>Modelled from the spec: the crypto library as the spec describes it
  (\<open>commit\<close>, \<open>commit_sum\<close>, \<open>add_blinding_factors\<close>, all deterministic), over
  the group \<open>'c\<close> with generator \<open>H\<close>; Crypto.cpp is not under the source tree.\<close>

definition spec_Crypto :: "'c::ab_group_add \<Rightarrow> 'c Crypto" where
  "spec_Crypto H =
     \<lparr> CommitTransparent = (\<lambda>v. Some (commit_transparent H v)),
       AddCommitments = (\<lambda>positive negative. Some (commit_sum positive negative)),
       AddBlindingFactors = (\<lambda>positive negative. Some (sum_list positive - sum_list negative)) \<rparr>"

section \<open>Legacy block validator (BlockChain/Validators/BlockValidator.cpp)\<close>

text \<open>The loop of \<open>VerifyKernelLockHeights\<close> over the kernels, with its early
  \<open>return false\<close>.\<close>

fun lock_heights_loop :: "u64 \<Rightarrow> 'c TransactionKernel list \<Rightarrow> bool" where
  "lock_heights_loop height [] = True"
| "lock_heights_loop height (kern # rest) =
     (if kern_lock_height kern > height then False else lock_heights_loop height rest)"

definition VerifyKernelLockHeights_b :: "'c FullBlock \<Rightarrow> bool" where
  "VerifyKernelLockHeights_b block =
     (let height = hdr_height (m_pBlockHeader block)
      in lock_heights_loop height (body_kernels (m_transactionBody block)))"

text \<open>The three loops of the legacy \<open>VerifyCoinbase\<close>: two collect commitments by
  \<open>push_back\<close> under the feature-bit test, the third adds the fees to the reward in
  \<open>uint64_t\<close>.\<close>

fun collect_coinbase_outputs ::
  "u8 \<Rightarrow> 'c TransactionOutput list \<Rightarrow> 'c list \<Rightarrow> 'c list" where
  "collect_coinbase_outputs flag [] coinbaseCommitments = coinbaseCommitments"
| "collect_coinbase_outputs flag (output # rest) coinbaseCommitments =
     (if (out_features output AND flag) = flag
      then collect_coinbase_outputs flag rest (coinbaseCommitments @ [out_commitment output])
      else collect_coinbase_outputs flag rest coinbaseCommitments)"

fun collect_coinbase_kernels ::
  "u8 \<Rightarrow> 'c TransactionKernel list \<Rightarrow> 'c list \<Rightarrow> 'c list" where
  "collect_coinbase_kernels flag [] coinbaseKernelExcesses = coinbaseKernelExcesses"
| "collect_coinbase_kernels flag (kern # rest) coinbaseKernelExcesses =
     (if (kern_features kern AND flag) = flag
      then collect_coinbase_kernels flag rest (coinbaseKernelExcesses @ [kern_excess kern])
      else collect_coinbase_kernels flag rest coinbaseKernelExcesses)"

fun add_fees :: "'c TransactionKernel list \<Rightarrow> u64 \<Rightarrow> u64" where
  "add_fees [] reward = reward"
| "add_fees (kern # rest) reward = add_fees rest (reward + kern_fee kern)"

definition VerifyCoinbase_b :: "'c Crypto \<Rightarrow> Consensus \<Rightarrow> 'c FullBlock \<Rightarrow> bool" where
  "VerifyCoinbase_b crypto consensus block =
     (let coinbaseCommitments =
            collect_coinbase_outputs (COINBASE_OUTPUT consensus)
              (body_outputs (m_transactionBody block)) [];
          coinbaseKernelExcesses =
            collect_coinbase_kernels (COINBASE_KERNEL consensus)
              (body_kernels (m_transactionBody block)) [];
          reward = add_fees (body_kernels (m_transactionBody block)) (REWARD consensus)
      in case CommitTransparent crypto reward of
           None \<Rightarrow> False
         | Some rewardCommitment \<Rightarrow>
             (let overCommitment = [rewardCommitment];
                  pOutputAdjustedSum = AddCommitments crypto coinbaseCommitments overCommitment;
                  pKernelSum = AddCommitments crypto coinbaseKernelExcesses []
              in case (pOutputAdjustedSum, pKernelSum) of
                   (Some outputAdjustedSum, Some kernelSum) \<Rightarrow> kernelSum = outputAdjustedSum
                 | _ \<Rightarrow> False))"

text \<open>\<open>VerifyKernelSums\<close>: the body is the comment \<open>TODO: Implement\<close> followed by
  \<open>return true\<close>.\<close>

definition VerifyKernelSums :: "'c FullBlock \<Rightarrow> u64 \<Rightarrow> BlindingFactor \<Rightarrow> bool" where
  "VerifyKernelSums block overage kernelOffset = True"

text \<open>\<open>IsBlockSelfConsistent\<close>; the transaction pool's \<open>ValidateTransactionBody\<close> is
  not under the source tree and is a parameter.\<close>

definition IsBlockSelfConsistent ::
  "('c TransactionBody \<Rightarrow> bool \<Rightarrow> bool) \<Rightarrow> 'c Crypto \<Rightarrow> Consensus \<Rightarrow> 'c FullBlock \<Rightarrow> bool" where
  "IsBlockSelfConsistent ValidateTransactionBody crypto consensus block =
     (if \<not> ValidateTransactionBody (m_transactionBody block) True then False
      else if \<not> VerifyKernelLockHeights_b block then False
      else if \<not> VerifyCoinbase_b crypto consensus block then False
      else True)"

text \<open>\<open>IsBlockValid\<close>. The overage argument \<open>0 - Consensus::REWARD\<close> is computed in
  \<open>uint64_t\<close> and passed as \<open>int64_t\<close>: the same 64 bits.\<close>

definition IsBlockValid ::
  "('c TransactionBody \<Rightarrow> bool \<Rightarrow> bool) \<Rightarrow> 'c Crypto \<Rightarrow> Consensus \<Rightarrow>
   'c FullBlock \<Rightarrow> BlindingFactor \<Rightarrow> bool \<Rightarrow> bool" where
  "IsBlockValid ValidateTransactionBody crypto consensus block previousKernelOffset
       validateSelfConsistent =
     (if validateSelfConsistent
         \<and> \<not> IsBlockSelfConsistent ValidateTransactionBody crypto consensus block
      then False
      else
        (let total = hdr_total_kernel_offset (m_pBlockHeader block);
             pBlockKernelOffset =
               (if total = previousKernelOffset
                then AddBlindingFactors crypto [total] [previousKernelOffset]
                else Some 0)
         in case pBlockKernelOffset of
              None \<Rightarrow> False
            | Some blockKernelOffset \<Rightarrow>
                (let kernelSumsValid =
                       VerifyKernelSums block (0 - REWARD consensus) blockKernelOffset
                 in if \<not> kernelSumsValid then False else True)))"

section \<open>Current block validator (src/BlockChain/Validators/BlockValidator.cpp)\<close>

text \<open>Exceptions as values. \<open>BAD_DATA_EXCEPTION(msg)\<close> builds a \<open>BadDataException\<close>;
  the other classes are what the layers below the validator throw, all derived from
  \<open>std::exception\<close>.\<close>

datatype exception =
    BadDataException string
  | BlockChainException string
  | CryptoException string
  | DeserializationException string
  | std_exception string

text \<open>\<open>VerifyBody\<close>. \<open>TransactionBodyValidator::Validate\<close> is not under the source
  tree and is a parameter: it returns normally or throws.\<close>

definition VerifyBody ::
  "('c TransactionBody \<Rightarrow> bool \<Rightarrow> exception + unit) \<Rightarrow> 'c FullBlock \<Rightarrow> exception + unit" where
  "VerifyBody Validate block =
     (case Validate (m_transactionBody block) False of
        Inr u \<Rightarrow> Inr ()
      | Inl e \<Rightarrow> Inl (BadDataException ''Failed to validate transaction body''))"

text \<open>\<open>std::any_of\<close>, \<open>FunctionalUtil::transform_if\<close> and \<open>std::accumulate\<close> as the
  left-to-right loops they are.\<close>

primrec any_of :: "('a \<Rightarrow> bool) \<Rightarrow> 'a list \<Rightarrow> bool" where
  "any_of p [] = False"
| "any_of p (x # xs) = (if p x then True else any_of p xs)"

primrec transform_if :: "('a \<Rightarrow> bool) \<Rightarrow> ('a \<Rightarrow> 'b) \<Rightarrow> 'a list \<Rightarrow> 'b list \<Rightarrow> 'b list" where
  "transform_if p f [] out = out"
| "transform_if p f (x # xs) out =
     (if p x then transform_if p f xs (out @ [f x]) else transform_if p f xs out)"

primrec accumulate :: "('b \<Rightarrow> 'a \<Rightarrow> 'b) \<Rightarrow> 'a list \<Rightarrow> 'b \<Rightarrow> 'b" where
  "accumulate f [] init = init"
| "accumulate f (x # xs) init = accumulate f xs (f init x)"

definition VerifyKernelLockHeights :: "'c FullBlock \<Rightarrow> exception + unit" where
  "VerifyKernelLockHeights block =
     (let blockHeight = GetHeight block;
          kernels = GetKernels block;
          invalid = any_of (\<lambda>kern. kern_lock_height kern > blockHeight) kernels
      in if invalid then Inl (BadDataException ''Failed to validate kernel lock heights'')
         else Inr ())"

text \<open>Modelled from the spec: \<open>TransactionOutput::IsCoinbase\<close> and
  \<open>TransactionKernel::IsCoinbase\<close> are declared in headers that are not under the
  source tree. An element is coinbase-marked when the COINBASE feature bit is set, the
  test the legacy validator writes inline.\<close>

definition output_IsCoinbase :: "Consensus \<Rightarrow> 'c TransactionOutput \<Rightarrow> bool" where
  "output_IsCoinbase consensus output =
     ((out_features output AND COINBASE_OUTPUT consensus) = COINBASE_OUTPUT consensus)"

definition kernel_IsCoinbase :: "Consensus \<Rightarrow> 'c TransactionKernel \<Rightarrow> bool" where
  "kernel_IsCoinbase consensus kern =
     ((kern_features kern AND COINBASE_KERNEL consensus) = COINBASE_KERNEL consensus)"

definition VerifyCoinbase ::
  "'c::ab_group_add \<Rightarrow> Consensus \<Rightarrow> 'c FullBlock \<Rightarrow> exception + unit" where
  "VerifyCoinbase H consensus block =
     (let blockOutputs = GetOutputs block;
          coinbaseCommitments =
            transform_if (output_IsCoinbase consensus) out_commitment blockOutputs [];
          blockKernels = GetKernels block;
          coinbaseKernelExcesses =
            transform_if (kernel_IsCoinbase consensus) kern_excess blockKernels [];
          reward =
            accumulate (\<lambda>reward kern. reward + kern_fee kern) blockKernels
              (REWARD consensus);
          overCommitment = [commit_transparent H reward];
          outputAdjustedSum = commit_sum coinbaseCommitments overCommitment;
          kernelSum = commit_sum coinbaseKernelExcesses []
      in if kernelSum \<noteq> outputAdjustedSum
         then Inl (BadDataException ''Failed to validate coinbase'')
         else Inr ())"

text \<open>\<open>VerifySelfConsistent\<close>: \<open>Inl\<close> is the exception thrown, \<open>Inr\<close> the block as
  the call leaves it (the flag is \<open>mutable\<close>, so the \<open>const\<close> block changes).\<close>

definition VerifySelfConsistent ::
  "('c TransactionBody \<Rightarrow> bool \<Rightarrow> exception + unit) \<Rightarrow> 'c::ab_group_add \<Rightarrow> Consensus \<Rightarrow>
   'c FullBlock \<Rightarrow> exception + 'c FullBlock" where
  "VerifySelfConsistent Validate H consensus block =
     (if WasValidated block then Inr block
      else case VerifyBody Validate block of
             Inl e \<Rightarrow> Inl e
           | Inr u \<Rightarrow>
               (case VerifyKernelLockHeights block of
                  Inl e \<Rightarrow> Inl e
                | Inr u \<Rightarrow>
                    (case VerifyCoinbase H consensus block of
                       Inl e \<Rightarrow> Inl e
                     | Inr u \<Rightarrow> Inr (MarkAsValidated block))))"

section \<open>Slate signatures (src/Wallet/SlateBuilder/SignatureUtil.h)\<close>









subsection \<open>The aggregate Schnorr scheme\<close>







section \<open>Foreign JSON-RPC server (src/API/Node/NodeServer.cpp)\<close>

datatype ('bc, 'p2p) handler =
    GetHeaderHandler 'bc
  | GetBlockHandler 'bc
  | GetVersionHandler 'bc
  | GetTipHandler 'bc
  | PushTransactionHandler 'bc 'p2p

datatype LogFile = LogFile_NODE | LogFile_WALLET

record ('srv, 'bc, 'p2p) RPCServer =
  rpc_pServer :: 'srv
  rpc_uri :: string
  rpc_logFile :: LogFile
  rpc_methods :: "string \<rightharpoonup> ('bc, 'p2p) handler"

text \<open>Modelled from the spec: \<open>RPCServer::Create\<close> and \<open>RPCServer::AddMethod\<close> are
  not under the source tree. The spec describes a method-name to handler map registered
  at boot: a new server has no method, and \<open>AddMethod\<close> binds the name to the
  handler.\<close>

definition RPCServer_Create :: "'srv \<Rightarrow> string \<Rightarrow> LogFile \<Rightarrow> ('srv, 'bc, 'p2p) RPCServer" where
  "RPCServer_Create pServer uri logFile =
     \<lparr> rpc_pServer = pServer, rpc_uri = uri, rpc_logFile = logFile, rpc_methods = Map.empty \<rparr>"

definition AddMethod ::
  "string \<Rightarrow> ('bc, 'p2p) handler \<Rightarrow> ('srv, 'bc, 'p2p) RPCServer \<Rightarrow> ('srv, 'bc, 'p2p) RPCServer" where
  "AddMethod name h server = server\<lparr> rpc_methods := (rpc_methods server)(name \<mapsto> h) \<rparr>"

record ('srv, 'bc, 'p2p) NodeServer =
  m_pForeignServer :: "('srv, 'bc, 'p2p) RPCServer"
  m_pOwnerServer :: "('srv, 'bc, 'p2p) RPCServer"

definition NodeServer_Create :: "'srv \<Rightarrow> 'bc \<Rightarrow> 'p2p \<Rightarrow> ('srv, 'bc, 'p2p) NodeServer" where
  "NodeServer_Create pServer pBlockChain pP2PServer =
     (let pForeignServer = RPCServer_Create pServer ''/v2/foreign'' LogFile_NODE;
          pForeignServer = AddMethod ''get_header'' (GetHeaderHandler pBlockChain) pForeignServer;
          pForeignServer = AddMethod ''get_block'' (GetBlockHandler pBlockChain) pForeignServer;
          pForeignServer = AddMethod ''get_version'' (GetVersionHandler pBlockChain) pForeignServer;
          pForeignServer = AddMethod ''get_tip'' (GetTipHandler pBlockChain) pForeignServer;
          pForeignServer =
            AddMethod ''push_transaction'' (PushTransactionHandler pBlockChain pP2PServer)
              pForeignServer;
          pOwnerServer = RPCServer_Create pServer ''/v2/owner'' LogFile_NODE
      in \<lparr> m_pForeignServer = pForeignServer, m_pOwnerServer = pOwnerServer \<rparr>)"

section \<open>Wallet restore (Wallet/WalletManagerImpl.cpp)\<close>

text \<open>The wallet manager's state: the wallet database and the session manager. Their
  classes, the mnemonic decoder and the seed encrypter are not under the source tree;
  the operations \<open>Restore\<close> calls on them are parameters, each returning its result
  and, where it has a state, the state it leaves.\<close>

record ('db, 'sm) WalletManager =
  m_pWalletDB :: 'db
  m_sessionManager :: 'sm

record ('db, 'sm, 'enc, 'tok) WalletDeps =
  ToEntropy :: "string \<Rightarrow> string option \<Rightarrow> u8 list option"
  EncryptWalletSeed :: "u8 list \<Rightarrow> string \<Rightarrow> 'enc"
  CreateWallet :: "'db \<Rightarrow> string \<Rightarrow> 'enc \<Rightarrow> bool \<times> 'db"
  Login :: "'sm \<Rightarrow> string \<Rightarrow> u8 list \<Rightarrow> 'tok \<times> 'sm"

definition Restore ::
  "('db, 'sm, 'enc, 'tok) WalletDeps \<Rightarrow> ('db, 'sm) WalletManager \<Rightarrow> string \<Rightarrow> string \<Rightarrow> string \<Rightarrow>
   'tok option \<times> ('db, 'sm) WalletManager" where
  "Restore deps wm username password walletWords =
     (case ToEntropy deps walletWords (Some password) of
        None \<Rightarrow> (None, wm)
      | Some entropy \<Rightarrow>
          if length entropy = 32 then
            (let walletSeed = entropy;
                 encryptedSeed = EncryptWalletSeed deps walletSeed password;
                 (created, db') = CreateWallet deps (m_pWalletDB wm) username encryptedSeed
             in if created then
                  (let (token, sm') = Login deps (m_sessionManager wm) username walletSeed
                   in (Some token, wm\<lparr> m_pWalletDB := db', m_sessionManager := sm' \<rparr>))
                else (None, wm\<lparr> m_pWalletDB := db' \<rparr>))
          else (None, wm))"

section \<open>The server's main loop (Server::Run)\<close>

text \<open>The console control events Windows delivers to \<open>CtrlHandler\<close>.\<close>

datatype ctrl_event =
    CTRL_C_EVENT
  | CTRL_BREAK_EVENT
  | CTRL_CLOSE_EVENT
  | CTRL_LOGOFF_EVENT
  | CTRL_SHUTDOWN_EVENT

text \<open>\<open>CtrlHandler\<close> on the global flag \<open>SHUTDOWN\<close>: the flag it leaves and the
  \<open>BOOL\<close> it returns.\<close>

definition CtrlHandler :: "ctrl_event \<Rightarrow> bool \<Rightarrow> bool \<times> bool" where
  "CtrlHandler fdwCtrlType SHUTDOWN =
     (case fdwCtrlType of
        CTRL_C_EVENT \<Rightarrow> (True, True)
      | _ \<Rightarrow> (SHUTDOWN, False))"

text \<open>The handler runs on the events delivered between two readings of the flag, in
  order.\<close>

fun deliver :: "ctrl_event list \<Rightarrow> bool \<Rightarrow> bool" where
  "deliver [] SHUTDOWN = SHUTDOWN"
| "deliver (ev # evs) SHUTDOWN = deliver evs (fst (CtrlHandler ev SHUTDOWN))"

datatype ESyncStatus =
    NOT_SYNCING
  | SYNCING_HEADERS
  | SYNCING_TXHASHSET
  | PROCESSING_TXHASHSET
  | TXHASHSET_SYNC_FAILED
  | SYNCING_BLOCKS

record SyncStatus =
  GetStatus :: ESyncStatus
  GetNumActiveConnections :: u64
  GetHeaderHeight :: u64
  GetHeaderDifficulty :: u64
  GetBlockHeight :: u64
  GetBlockDifficulty :: u64
  GetNetworkHeight :: u64
  GetNetworkDifficulty :: u64
  GetDownloaded :: u64
  GetDownloadSize :: u64

text \<open>Unsigned 64-bit division as the machine has it: a divisor of zero is a fault, not
  a value.\<close>

datatype fault = DivideByZero

definition udiv64 :: "u64 \<Rightarrow> u64 \<Rightarrow> fault + u64" where
  "udiv64 a b = (if b = 0 then Inl DivideByZero else Inr (a div b))"

text \<open>The two percentages of the status display, with their guards.\<close>

definition header_percentage :: "SyncStatus \<Rightarrow> fault + u64" where
  "header_percentage syncStatus =
     (let networkHeight = GetNetworkHeight syncStatus
      in if networkHeight > 0 then udiv64 (GetHeaderHeight syncStatus * 100) networkHeight
         else Inr 0)"

definition txhashset_percentage :: "SyncStatus \<Rightarrow> fault + u64" where
  "txhashset_percentage syncStatus =
     (let downloaded = GetDownloaded syncStatus;
          downloadSize = GetDownloadSize syncStatus
      in if downloadSize > 0 then udiv64 (downloaded * 100) downloadSize else Inr 0)"

text \<open>What the loop writes to the console, one constructor per output statement.\<close>

datatype console =
    TimeRunning
  | StatusRunning
  | StatusSyncingHeaders u64
  | StatusSyncingTxHashSet u64 u64 u64
  | StatusValidatingTxHashSet
  | StatusTxHashSetSyncFailed
  | StatusSyncingBlocks
  | NumConnections u64
  | HeaderHeight u64
  | HeaderDifficulty u64
  | BlockHeight u64
  | BlockDifficulty u64
  | NetworkHeight u64
  | NetworkDifficulty u64
  | PressCtrlCToExit
  | Flush
  | ShuttingDown

text \<open>What \<open>Run\<close> does, one constructor per call on a subsystem.\<close>

datatype action =
    SetCurrentThreadName string
  | SetConsoleCtrlHandler
  | LoadConfig
  | LoggerInitialize
  | OpenDatabase
  | NewTxHashSetManager
  | CreateTransactionPool
  | StartBlockChainServer
  | StartP2PServer
  | NodeRestServerStart
  | GetSyncStatus
  | SystemCls
  | Cout console
  | SleepSeconds nat
  | NodeRestServerShutdown
  | ShutdownP2PServer
  | DestroyTransactionPool
  | ShutdownBlockChainServer
  | DeleteTxHashSetManager
  | CloseDatabase
  | LoggerFlush

text \<open>The status line: the \<open>if\<close>/\<open>else if\<close> chain over the sync status.\<close>

definition status_line :: "SyncStatus \<Rightarrow> fault + console list" where
  "status_line syncStatus =
     (let status = GetStatus syncStatus
      in if status = NOT_SYNCING then Inr [StatusRunning]
         else if status = SYNCING_HEADERS then
           (case header_percentage syncStatus of
              Inl f \<Rightarrow> Inl f
            | Inr percentage \<Rightarrow> Inr [StatusSyncingHeaders percentage])
         else if status = SYNCING_TXHASHSET then
           (case txhashset_percentage syncStatus of
              Inl f \<Rightarrow> Inl f
            | Inr percentage \<Rightarrow>
                Inr [StatusSyncingTxHashSet (GetDownloaded syncStatus)
                       (GetDownloadSize syncStatus) percentage])
         else if status = PROCESSING_TXHASHSET then Inr [StatusValidatingTxHashSet]
         else if status = TXHASHSET_SYNC_FAILED then Inr [StatusTxHashSetSyncFailed]
         else if status = SYNCING_BLOCKS then Inr [StatusSyncingBlocks]
         else Inr [])"

text \<open>One full iteration of the loop after the flag was read as false.\<close>

definition loop_body :: "SyncStatus \<Rightarrow> fault + action list" where
  "loop_body syncStatus =
     (case status_line syncStatus of
        Inl f \<Rightarrow> Inl f
      | Inr line \<Rightarrow>
          Inr ([GetSyncStatus, SystemCls, Cout TimeRunning] @ map Cout line @
               [Cout (NumConnections (GetNumActiveConnections syncStatus)),
                Cout (HeaderHeight (GetHeaderHeight syncStatus)),
                Cout (HeaderDifficulty (GetHeaderDifficulty syncStatus)),
                Cout (BlockHeight (GetBlockHeight syncStatus)),
                Cout (BlockDifficulty (GetBlockDifficulty syncStatus)),
                Cout (NetworkHeight (GetNetworkHeight syncStatus)),
                Cout (NetworkDifficulty (GetNetworkDifficulty syncStatus)),
                Cout PressCtrlCToExit, Cout Flush, SleepSeconds 1]))"

text \<open>The \<open>while (true)\<close> loop. \<open>signals i\<close> are the control events delivered before
  the \<open>i\<close>-th reading of the flag, \<open>sync i\<close> is the status the P2P server reports in
  the \<open>i\<close>-th iteration. The loop need not end: not returning is \<open>None\<close>.\<close>

partial_function (option) main_loop ::
  "(nat \<Rightarrow> ctrl_event list) \<Rightarrow> (nat \<Rightarrow> SyncStatus) \<Rightarrow> nat \<Rightarrow> bool \<Rightarrow> action list \<Rightarrow>
   (fault + action list) option" where
  "main_loop signals sync i SHUTDOWN trace =
     (let SHUTDOWN' = deliver (signals i) SHUTDOWN
      in if SHUTDOWN' then Some (Inr trace)
         else case loop_body (sync i) of
                Inl f \<Rightarrow> Some (Inl f)
              | Inr acts \<Rightarrow> main_loop signals sync (Suc i) SHUTDOWN' (trace @ acts))"

definition startup :: "action list" where
  "startup =
     [SetCurrentThreadName ''MAIN THREAD'', SetConsoleCtrlHandler, LoadConfig,
      LoggerInitialize, OpenDatabase, NewTxHashSetManager, CreateTransactionPool,
      StartBlockChainServer, StartP2PServer, NodeRestServerStart]"

definition shutdown :: "action list" where
  "shutdown =
     [Cout ShuttingDown, NodeRestServerShutdown, ShutdownP2PServer, DestroyTransactionPool,
      ShutdownBlockChainServer, DeleteTxHashSetManager, CloseDatabase, LoggerFlush]"

text \<open>\<open>Server::Run\<close>: start the subsystems, loop, shut them down. The flag starts
  false (\<open>std::atomic_bool SHUTDOWN = false\<close>).\<close>

definition Run ::
  "(nat \<Rightarrow> ctrl_event list) \<Rightarrow> (nat \<Rightarrow> SyncStatus) \<Rightarrow> (fault + action list) option" where
  "Run signals sync =
     (case main_loop signals sync 0 False startup of
        None \<Rightarrow> None
      | Some (Inl f) \<Rightarrow> Some (Inl f)
      | Some (Inr trace) \<Rightarrow> Some (Inr (trace @ shutdown)))"

section \<open>The commitment-sum identity and concrete inputs\<close>

text \<open>Invariant (I1), following the spec's words: the sum of the outputs minus the sum
  of the inputs minus \<open>fee\<cdot>H\<close> minus \<open>reward\<cdot>H\<close> equals the sum of the kernel
  excesses plus \<open>offset\<cdot>G\<close>.\<close>

definition commitment_sum_identity ::
  "'c::ab_group_add \<Rightarrow> 'c \<Rightarrow> Consensus \<Rightarrow> 'c FullBlock \<Rightarrow> BlindingFactor \<Rightarrow> bool" where
  "commitment_sum_identity H G consensus block offset =
     (sum_list (map out_commitment (GetOutputs block))
        - sum_list (map in_commitment (GetInputs block))
        - scalar_mult (sum_list (map (\<lambda>kern. unat (kern_fee kern)) (GetKernels block))) H
        - scalar_mult (unat (REWARD consensus)) H
      = sum_list (map kern_excess (GetKernels block)) + scalar_mult (unat offset) G)"

text \<open>Concrete inputs. A commitment \<open>v\<cdot>H + r\<cdot>G\<close> is written as the pair \<open>(v, r)\<close>
  of integers, so \<open>H\<close> is \<open>(1, 0)\<close> and \<open>G\<close> is \<open>(0, 1)\<close>; the reward is 60 coins of
  \<open>10 ^ 9\<close> units and the coinbase bit is bit 0.\<close>

definition example_H :: "int \<times> int" where
  "example_H = (1, 0)"

definition example_G :: "int \<times> int" where
  "example_G = (0, 1)"

definition example_consensus :: Consensus where
  "example_consensus = \<lparr> REWARD = 60000000000, COINBASE_OUTPUT = 1, COINBASE_KERNEL = 1 \<rparr>"

definition coinbase_output :: "int \<Rightarrow> int \<Rightarrow> (int \<times> int) TransactionOutput" where
  "coinbase_output v r = \<lparr> out_features = 1, out_commitment = (v, r), out_rangeproof = [] \<rparr>"

definition plain_output :: "int \<Rightarrow> int \<Rightarrow> (int \<times> int) TransactionOutput" where
  "plain_output v r = \<lparr> out_features = 0, out_commitment = (v, r), out_rangeproof = [] \<rparr>"

definition coinbase_kernel :: "u64 \<Rightarrow> int \<Rightarrow> (int \<times> int) TransactionKernel" where
  "coinbase_kernel lock r =
     \<lparr> kern_features = 1, kern_fee = 0, kern_lock_height = lock, kern_excess = (0, r),
       kern_signature = [] \<rparr>"

definition example_block ::
  "(int \<times> int) TransactionOutput list \<Rightarrow> (int \<times> int) TransactionKernel list \<Rightarrow>
   (int \<times> int) FullBlock" where
  "example_block outs kerns =
     \<lparr> m_pBlockHeader = \<lparr> hdr_height = 5, hdr_total_kernel_offset = 0 \<rparr>,
       m_transactionBody = \<lparr> body_inputs = [], body_outputs = outs, body_kernels = kerns \<rparr>,
       m_validated = False \<rparr>"

text \<open>A block at height 5 whose only output is the coinbase output of exactly the
  reward, balanced by its coinbase kernel.\<close>

definition coinbase_only_block :: "(int \<times> int) FullBlock" where
  "coinbase_only_block = example_block [coinbase_output 60000000000 5] [coinbase_kernel 0 5]"

text \<open>The same block with a second, plain output of 1000 units that nothing pays
  for.\<close>

definition inflating_block :: "(int \<times> int) FullBlock" where
  "inflating_block =
     example_block [coinbase_output 60000000000 5, plain_output 1000 7] [coinbase_kernel 0 5]"

text \<open>A block whose coinbase output claims one unit more than the reward.\<close>

definition bad_coinbase_block :: "(int \<times> int) FullBlock" where
  "bad_coinbase_block = example_block [coinbase_output 60000000001 5] [coinbase_kernel 0 5]"

text \<open>A block at height 5 whose kernel is locked until height 6.\<close>

definition locked_block :: "(int \<times> int) FullBlock" where
  "locked_block = example_block [coinbase_output 60000000000 5] [coinbase_kernel 6 5]"

text \<open>A body validator that accepts every body, in the two shapes the validators
  call it.\<close>

definition accept_body :: "'c TransactionBody \<Rightarrow> bool \<Rightarrow> bool" where
  "accept_body txBody withBlock = True"

definition Validate_ok :: "'c TransactionBody \<Rightarrow> bool \<Rightarrow> exception + unit" where
  "Validate_ok txBody withBlock = Inr ()"

text \<open>Sync statuses for the display: nothing known about the network yet (network height
  and download size are both zero).\<close>

definition unknown_network :: "ESyncStatus \<Rightarrow> SyncStatus" where
  "unknown_network st =
     \<lparr> GetStatus = st, GetNumActiveConnections = 0, GetHeaderHeight = 7,
       GetHeaderDifficulty = 0, GetBlockHeight = 0, GetBlockDifficulty = 0,
       GetNetworkHeight = 0, GetNetworkDifficulty = 0, GetDownloaded = 3,
       GetDownloadSize = 0 \<rparr>"

text \<open>A body validator that throws a low-level crypto error on every body.\<close>

definition Validate_throws :: "'c TransactionBody \<Rightarrow> bool \<Rightarrow> exception + unit" where
  "Validate_throws txBody withBlock = Inl (CryptoException ''InvalidSignature'')"

text \<open>A run of the server in which Ctrl-C (after a Ctrl-Break) arrives before the
  third reading of the flag, while the node reports that it is not syncing.\<close>

definition ctrl_c_before_third_check :: "nat \<Rightarrow> ctrl_event list" where
  "ctrl_c_before_third_check i = (if i = 2 then [CTRL_BREAK_EVENT, CTRL_C_EVENT] else [])"

definition always_running :: "nat \<Rightarrow> SyncStatus" where
  "always_running i = unknown_network NOT_SYNCING"

text \<open>A wallet environment: 24 words decode to 32 bytes, 12 words to 16, anything else
  does not decode; the wallet database is the list of its user names and refuses a name it
  already has; the session manager is the list of its logged-in users and a token is a
  session number.\<close>

definition example_deps :: "(string list, string list, u8 list \<times> string, nat) WalletDeps" where
  "example_deps =
     \<lparr> ToEntropy = (\<lambda>walletWords passwordOpt.
         if walletWords = ''twenty four words'' then Some (replicate 32 1)
         else if walletWords = ''twelve words'' then Some (replicate 16 1)
         else None),
       EncryptWalletSeed = (\<lambda>walletSeed password. (walletSeed, password)),
       CreateWallet = (\<lambda>db username encryptedSeed.
         if username \<in> set db then (False, db) else (True, db @ [username])),
       Login = (\<lambda>sessions username walletSeed. (length sessions, sessions @ [username])) \<rparr>"

definition example_wallet_manager :: "(string list, string list) WalletManager" where
  "example_wallet_manager = \<lparr> m_pWalletDB = [''bob''], m_sessionManager = [] \<rparr>"

text \<open>The total fee of all kernels of a block, as a number.\<close>

definition total_fee :: "'c FullBlock \<Rightarrow> nat" where
  "total_fee block = sum_list (map (\<lambda>kern. unat (kern_fee kern)) (GetKernels block))"

text \<open>A block whose kernel fee is \<open>2 ^ 64 - REWARD + 7\<close>, so that the reward plus the
  fee is \<open>2 ^ 64 + 7\<close> as a number and 7 in \<open>uint64_t\<close>; its coinbase output commits
  to 7 units.\<close>

definition overflowing_fee_block :: "(int \<times> int) FullBlock" where
  "overflowing_fee_block =
     example_block [coinbase_output 7 5]
       [\<lparr> kern_features = 1, kern_fee = 18446744013709551623, kern_lock_height = 0,
          kern_excess = (0, 5), kern_signature = [] \<rparr>]"



section \<open>The status display\<close>

lemma header_percentage_eq:
  "header_percentage s =
     Inr (if GetNetworkHeight s > 0 then (GetHeaderHeight s * 100) div GetNetworkHeight s else 0)"
  by (auto simp: header_percentage_def Let_def udiv64_def)

lemma txhashset_percentage_eq:
  "txhashset_percentage s =
     Inr (if GetDownloadSize s > 0 then (GetDownloaded s * 100) div GetDownloadSize s else 0)"
  by (auto simp: txhashset_percentage_def Let_def udiv64_def)

lemma status_line_total: "\<exists>line. status_line s = Inr line"
  by (simp add: status_line_def Let_def header_percentage_eq txhashset_percentage_eq)

lemma loop_body_total: "\<exists>acts. loop_body s = Inr acts"
proof -
  obtain line where "status_line s = Inr line"
    using status_line_total by blast
  then show ?thesis
    by (simp add: loop_body_def)
qed

text \<open>
  Claim C10. The sync-status display never divides by zero. The header-sync percentage is
  \<open>headerHeight * 100 / networkHeight\<close> (in \<open>uint64_t\<close>) when the network height is
  positive and 0 otherwise; the TxHashSet-download percentage is
  \<open>downloaded * 100 / downloadSize\<close> when the download size is positive and 0 otherwise;
  so neither the status line nor a whole iteration of the loop ends in the division
  fault, whatever the sync status is.
\<close>

theorem percentages_never_divide_by_zero:
  "header_percentage s =
     Inr (if GetNetworkHeight s > 0 then (GetHeaderHeight s * 100) div GetNetworkHeight s else 0)
   \<and> txhashset_percentage s =
     Inr (if GetDownloadSize s > 0 then (GetDownloaded s * 100) div GetDownloadSize s else 0)
   \<and> status_line s \<noteq> Inl DivideByZero
   \<and> loop_body s \<noteq> Inl DivideByZero"
  using status_line_total [of s] loop_body_total [of s]
  by (auto simp: header_percentage_eq txhashset_percentage_eq)

theorem percentages_never_divide_by_zero_witness:
  "header_percentage (unknown_network SYNCING_HEADERS) = Inr 0
   \<and> txhashset_percentage (unknown_network SYNCING_TXHASHSET) = Inr 0
   \<and> status_line (unknown_network SYNCING_HEADERS) \<noteq> Inl DivideByZero
   \<and> loop_body (unknown_network SYNCING_TXHASHSET) \<noteq> Inl DivideByZero"
  using percentages_never_divide_by_zero [of "unknown_network SYNCING_HEADERS"]
    percentages_never_divide_by_zero [of "unknown_network SYNCING_TXHASHSET"]
  by (simp add: unknown_network_def)

section \<open>The loops of the validators\<close>

lemma lock_heights_loop_iff:
  "lock_heights_loop height ks = (\<forall>k\<in>set ks. kern_lock_height k \<le> height)"
  by (induction ks) (auto simp: not_less)

lemma any_of_iff: "any_of p xs = (\<exists>x\<in>set xs. p x)"
  by (induction xs) auto

lemma transform_if_eq: "transform_if p f xs out = out @ map f (filter p xs)"
  by (induction xs arbitrary: out) auto

lemma collect_coinbase_outputs_eq:
  "collect_coinbase_outputs (COINBASE_OUTPUT consensus) outs acc =
     acc @ map out_commitment (filter (output_IsCoinbase consensus) outs)"
  by (induction outs arbitrary: acc) (auto simp: output_IsCoinbase_def)

lemma collect_coinbase_kernels_eq:
  "collect_coinbase_kernels (COINBASE_KERNEL consensus) ks acc =
     acc @ map kern_excess (filter (kernel_IsCoinbase consensus) ks)"
  by (induction ks arbitrary: acc) (auto simp: kernel_IsCoinbase_def)

lemma add_fees_eq: "add_fees ks reward = reward + sum_list (map kern_fee ks)"
  by (induction ks arbitrary: reward) (auto simp: add.assoc)

lemma accumulate_fees_eq:
  "accumulate (\<lambda>reward kern. reward + kern_fee kern) ks init = init + sum_list (map kern_fee ks)"
  by (induction ks arbitrary: init) (auto simp: add.assoc)

lemma VerifyKernelLockHeights_b_iff:
  "VerifyKernelLockHeights_b block =
     (\<forall>k\<in>set (GetKernels block). kern_lock_height k \<le> GetHeight block)"
  by (simp add: VerifyKernelLockHeights_b_def lock_heights_loop_iff GetKernels_def GetHeight_def)

lemma VerifyKernelLockHeights_throws_iff:
  "(VerifyKernelLockHeights block = Inl (BadDataException ''Failed to validate kernel lock heights''))
     = (\<exists>k\<in>set (GetKernels block). kern_lock_height k > GetHeight block)"
  by (simp add: VerifyKernelLockHeights_def any_of_iff Let_def)

lemma VerifyKernelLockHeights_ok_iff:
  "(VerifyKernelLockHeights block = Inr ())
     = (\<forall>k\<in>set (GetKernels block). kern_lock_height k \<le> GetHeight block)"
  by (auto simp add: VerifyKernelLockHeights_def any_of_iff Let_def not_le)

lemma VerifyCoinbase_ok_iff:
  "(VerifyCoinbase H consensus block = Inr ()) =
     (sum_list (map out_commitment (filter (output_IsCoinbase consensus) (GetOutputs block)))
        - scalar_mult (unat (REWARD consensus + sum_list (map kern_fee (GetKernels block)))) H
      = sum_list (map kern_excess (filter (kernel_IsCoinbase consensus) (GetKernels block))))"
  by (auto simp add: VerifyCoinbase_def Let_def transform_if_eq accumulate_fees_eq
        commit_sum_def commit_transparent_def)

lemma VerifyCoinbase_throws_iff:
  "(VerifyCoinbase H consensus block = Inl (BadDataException ''Failed to validate coinbase'')) =
     (sum_list (map out_commitment (filter (output_IsCoinbase consensus) (GetOutputs block)))
        - scalar_mult (unat (REWARD consensus + sum_list (map kern_fee (GetKernels block)))) H
      \<noteq> sum_list (map kern_excess (filter (kernel_IsCoinbase consensus) (GetKernels block))))"
  by (auto simp add: VerifyCoinbase_def Let_def transform_if_eq accumulate_fees_eq
        commit_sum_def commit_transparent_def)

lemma VerifyCoinbase_b_spec_iff:
  "VerifyCoinbase_b (spec_Crypto H) consensus block =
     (sum_list (map out_commitment (filter (output_IsCoinbase consensus) (GetOutputs block)))
        - scalar_mult (unat (REWARD consensus + sum_list (map kern_fee (GetKernels block)))) H
      = sum_list (map kern_excess (filter (kernel_IsCoinbase consensus) (GetKernels block))))"
  by (auto simp add: VerifyCoinbase_b_def spec_Crypto_def Let_def collect_coinbase_outputs_eq
        collect_coinbase_kernels_eq add_fees_eq commit_sum_def commit_transparent_def
        GetOutputs_def GetKernels_def)

text \<open>Scalar multiplication in the pair model of the commitment group.\<close>

lemma scalar_mult_pair: "scalar_mult n (a, b) = (int n * a, int n * (b::int))"
  by (induction n) (auto simp: zero_prod_def algebra_simps)

text \<open>Unfolding the concrete inputs.\<close>

lemmas example_defs =
  example_H_def example_G_def example_consensus_def coinbase_output_def plain_output_def
  coinbase_kernel_def example_block_def coinbase_only_block_def inflating_block_def
  bad_coinbase_block_def locked_block_def accept_body_def Validate_ok_def
  GetOutputs_def GetKernels_def GetInputs_def GetHeight_def
  output_IsCoinbase_def kernel_IsCoinbase_def


text \<open>The reward the code computes is the reward plus the total fee modulo
  \<open>2 ^ 64\<close>.\<close>

lemma unat_reward_plus_fees:
  "unat (reward + sum_list (map kern_fee ks))
     = (unat reward + sum_list (map (\<lambda>kern. unat (kern_fee kern)) ks)) mod 2 ^ 64"
proof (induction ks arbitrary: reward)
  case Nil
  have "unat reward < 2 ^ 64"
    using unsigned_less [of reward] by simp
  then show ?case by simp
next
  case (Cons k ks)
  have split: "reward + sum_list (map kern_fee (k # ks))
      = (reward + kern_fee k) + sum_list (map kern_fee ks)"
    by (simp add: add.assoc)
  have "unat (reward + sum_list (map kern_fee (k # ks)))
      = (unat (reward + kern_fee k) + sum_list (map (\<lambda>kern. unat (kern_fee kern)) ks)) mod 2 ^ 64"
    unfolding split by (rule Cons.IH)
  also have "\<dots> = ((unat reward + unat (kern_fee k)) mod 2 ^ 64
      + sum_list (map (\<lambda>kern. unat (kern_fee kern)) ks)) mod 2 ^ 64"
    by (simp add: unat_word_ariths)
  also have "\<dots> = (unat reward + unat (kern_fee k)
      + sum_list (map (\<lambda>kern. unat (kern_fee kern)) ks)) mod 2 ^ 64"
    by (simp add: mod_add_left_eq)
  finally show ?case by (simp add: add.assoc)
qed

lemma unat_reward_plus_fees_exact:
  "unat (REWARD consensus) + total_fee block < 2 ^ 64 \<Longrightarrow>
   unat (REWARD consensus + sum_list (map kern_fee (GetKernels block)))
     = unat (REWARD consensus) + total_fee block"
  by (simp add: unat_reward_plus_fees total_fee_def)

lemma total_fee_examples:
  "total_fee coinbase_only_block = 0 \<and> total_fee bad_coinbase_block = 0"
  by (simp add: total_fee_def example_defs)

section \<open>Kernel lock heights\<close>

lemma locked_block_kernels:
  "GetKernels locked_block = [coinbase_kernel 6 5] \<and> GetHeight locked_block = 5"
  by (simp add: example_defs)

text \<open>
  Claim C2, as amended. The kernel lock-height check rejects a block (the current
  validator throws \<open>BadData\<close>, the legacy validator returns false) if and only if some
  kernel of the body has a lock height strictly greater than the header's height, and
  passes a block in which every kernel satisfies \<open>lock_height \<le> height\<close>. Block
  validation that runs the check (\<open>IsBlockSelfConsistent\<close>, \<open>IsBlockValid\<close> asked to
  validate self-consistency, \<open>VerifySelfConsistent\<close> on a block not yet marked as
  validated) rejects every block the check rejects.
\<close>

theorem lock_height_check_iff:
  "(VerifyKernelLockHeights block
       = Inl (BadDataException ''Failed to validate kernel lock heights''))
     = (\<exists>k\<in>set (GetKernels block). GetHeight block < kern_lock_height k)
   \<and> (VerifyKernelLockHeights block = Inr ())
     = (\<forall>k\<in>set (GetKernels block). kern_lock_height k \<le> GetHeight block)
   \<and> VerifyKernelLockHeights_b block
     = (\<forall>k\<in>set (GetKernels block). kern_lock_height k \<le> GetHeight block)
   \<and> ((\<exists>k\<in>set (GetKernels block). GetHeight block < kern_lock_height k) \<longrightarrow>
        \<not> IsBlockSelfConsistent ValidateTransactionBody crypto consensus block
        \<and> \<not> IsBlockValid ValidateTransactionBody crypto consensus block previousKernelOffset True
        \<and> (\<not> WasValidated block \<longrightarrow>
             (\<exists>msg. VerifySelfConsistent Validate H consensus block = Inl (BadDataException msg))))"
proof -
  have legacy: "VerifyKernelLockHeights_b block
     = (\<forall>k\<in>set (GetKernels block). kern_lock_height k \<le> GetHeight block)"
    by (rule VerifyKernelLockHeights_b_iff)
  have rejects: "\<not> IsBlockSelfConsistent ValidateTransactionBody crypto consensus block
        \<and> \<not> IsBlockValid ValidateTransactionBody crypto consensus block previousKernelOffset True
        \<and> (\<not> WasValidated block \<longrightarrow>
             (\<exists>msg. VerifySelfConsistent Validate H consensus block = Inl (BadDataException msg)))"
    if bad: "\<exists>k\<in>set (GetKernels block). GetHeight block < kern_lock_height k"
  proof -
    from bad have "\<not> VerifyKernelLockHeights_b block"
      by (auto simp: legacy not_le)
    then have a: "\<not> IsBlockSelfConsistent ValidateTransactionBody crypto consensus block"
      by (simp add: IsBlockSelfConsistent_def)
    then have b: "\<not> IsBlockValid ValidateTransactionBody crypto consensus block previousKernelOffset True"
      by (simp add: IsBlockValid_def)
    from bad have t: "VerifyKernelLockHeights block
       = Inl (BadDataException ''Failed to validate kernel lock heights'')"
      by (simp add: VerifyKernelLockHeights_throws_iff)
    have c: "\<exists>msg. VerifySelfConsistent Validate H consensus block = Inl (BadDataException msg)"
      if "\<not> WasValidated block"
      using that t
      by (cases "Validate (m_transactionBody block) False")
         (simp_all add: VerifySelfConsistent_def VerifyBody_def)
    from a b c show ?thesis by blast
  qed
  show ?thesis
    using VerifyKernelLockHeights_throws_iff [of block] VerifyKernelLockHeights_ok_iff [of block]
      legacy rejects
    by blast
qed

theorem lock_height_check_iff_witness:
  "VerifyKernelLockHeights locked_block
       = Inl (BadDataException ''Failed to validate kernel lock heights'')
   \<and> \<not> VerifyKernelLockHeights_b locked_block
   \<and> \<not> IsBlockSelfConsistent accept_body (spec_Crypto example_H) example_consensus locked_block
   \<and> \<not> IsBlockValid accept_body (spec_Crypto example_H) example_consensus locked_block 0 True
   \<and> VerifySelfConsistent Validate_ok example_H example_consensus locked_block
       = Inl (BadDataException ''Failed to validate kernel lock heights'')
   \<and> VerifyKernelLockHeights coinbase_only_block = Inr ()
   \<and> VerifyKernelLockHeights_b coinbase_only_block"
proof -
  have bad: "\<exists>k\<in>set (GetKernels locked_block). GetHeight locked_block < kern_lock_height k"
    by (simp add: locked_block_kernels coinbase_kernel_def)
  have good: "\<forall>k\<in>set (GetKernels coinbase_only_block).
      kern_lock_height k \<le> GetHeight coinbase_only_block"
    by (simp add: example_defs)
  have nv: "\<not> WasValidated locked_block"
    by (simp add: WasValidated_def example_defs)
  note t = lock_height_check_iff [of locked_block accept_body "spec_Crypto example_H"
      example_consensus 0 Validate_ok example_H]
  note g = lock_height_check_iff [of coinbase_only_block accept_body "spec_Crypto example_H"
      example_consensus 0 Validate_ok example_H]
  from t bad have 1: "VerifyKernelLockHeights locked_block
       = Inl (BadDataException ''Failed to validate kernel lock heights'')" by blast
  from t bad have 2: "\<not> VerifyKernelLockHeights_b locked_block" by (auto simp: not_le)
  from t bad have 3: "\<not> IsBlockSelfConsistent accept_body (spec_Crypto example_H) example_consensus locked_block"
    by blast
  from t bad have 4: "\<not> IsBlockValid accept_body (spec_Crypto example_H) example_consensus locked_block 0 True"
    by blast
  from 1 nv have 5: "VerifySelfConsistent Validate_ok example_H example_consensus locked_block
       = Inl (BadDataException ''Failed to validate kernel lock heights'')"
    by (simp add: VerifySelfConsistent_def VerifyBody_def Validate_ok_def)
  from g good have 6: "VerifyKernelLockHeights coinbase_only_block = Inr ()" by blast
  from g good have 7: "VerifyKernelLockHeights_b coinbase_only_block" by blast
  from 1 2 3 4 5 6 7 show ?thesis by blast
qed

text \<open>
  Claim C2 as stated fails: block validation also rejects blocks whose kernels all
  satisfy the lock-height rule. The block below has a single kernel with lock height 0 at
  block height 5 and passes the lock-height check of both validators, yet both reject it,
  because its coinbase output claims more than the reward.
\<close>

theorem block_rejected_with_valid_lock_heights:
  "VerifySelfConsistent Validate_ok example_H example_consensus bad_coinbase_block
       = Inl (BadDataException ''Failed to validate coinbase'')
   \<and> \<not> IsBlockSelfConsistent accept_body (spec_Crypto example_H) example_consensus bad_coinbase_block
   \<and> \<not> IsBlockValid accept_body (spec_Crypto example_H) example_consensus bad_coinbase_block 0 True
   \<and> VerifyKernelLockHeights bad_coinbase_block = Inr ()
   \<and> VerifyKernelLockHeights_b bad_coinbase_block
   \<and> map kern_lock_height (GetKernels bad_coinbase_block) = [0]
   \<and> GetHeight bad_coinbase_block = 5"
proof -
  have lk: "VerifyKernelLockHeights bad_coinbase_block = Inr ()"
    by (simp add: VerifyKernelLockHeights_ok_iff example_defs)
  have lkb: "VerifyKernelLockHeights_b bad_coinbase_block"
    by (simp add: VerifyKernelLockHeights_b_iff example_defs)
  have cb: "VerifyCoinbase example_H example_consensus bad_coinbase_block
       = Inl (BadDataException ''Failed to validate coinbase'')"
    by (simp add: VerifyCoinbase_throws_iff example_defs scalar_mult_pair)
  have cbb: "\<not> VerifyCoinbase_b (spec_Crypto example_H) example_consensus bad_coinbase_block"
    by (simp add: VerifyCoinbase_b_spec_iff example_defs scalar_mult_pair)
  have nv: "\<not> WasValidated bad_coinbase_block"
    by (simp add: WasValidated_def example_defs)
  have 1: "VerifySelfConsistent Validate_ok example_H example_consensus bad_coinbase_block
       = Inl (BadDataException ''Failed to validate coinbase'')"
    using lk cb nv by (simp add: VerifySelfConsistent_def VerifyBody_def Validate_ok_def)
  have 2: "\<not> IsBlockSelfConsistent accept_body (spec_Crypto example_H) example_consensus bad_coinbase_block"
    using cbb by (simp add: IsBlockSelfConsistent_def)
  have 3: "\<not> IsBlockValid accept_body (spec_Crypto example_H) example_consensus bad_coinbase_block 0 True"
    using 2 by (simp add: IsBlockValid_def)
  have 4: "map kern_lock_height (GetKernels bad_coinbase_block) = [0]
       \<and> GetHeight bad_coinbase_block = 5"
    by (simp add: example_defs)
  from 1 2 3 4 lk lkb show ?thesis by blast
qed

section \<open>The coinbase check\<close>

text \<open>
  Claim C3, as amended. For every block in which the block \<open>REWARD\<close> plus the total
  fee of all kernels fits in 64 bits, the coinbase check accepts if and only if the sum
  of the commitments of the coinbase-marked outputs minus the transparent commitment to
  \<open>(REWARD + total fee)\<cdot>H\<close> equals the sum of the excess commitments of the
  coinbase-marked kernels; otherwise the current validator throws \<open>BadData\<close> and the
  legacy validator (over the crypto library as the spec describes it) returns false.
  Equivalently: the coinbase output sum equals the coinbase kernel sum plus
  \<open>(REWARD + total fee)\<cdot>H\<close>.
\<close>

theorem VerifyCoinbase_accepts_iff:
  assumes "unat (REWARD consensus) + total_fee block < 2 ^ 64"
  shows "(VerifyCoinbase H consensus block = Inr ()) =
     (sum_list (map out_commitment (filter (output_IsCoinbase consensus) (GetOutputs block)))
        - scalar_mult (unat (REWARD consensus) + total_fee block) H
      = sum_list (map kern_excess (filter (kernel_IsCoinbase consensus) (GetKernels block))))
   \<and> (VerifyCoinbase H consensus block = Inl (BadDataException ''Failed to validate coinbase'')) =
     (sum_list (map out_commitment (filter (output_IsCoinbase consensus) (GetOutputs block)))
        - scalar_mult (unat (REWARD consensus) + total_fee block) H
      \<noteq> sum_list (map kern_excess (filter (kernel_IsCoinbase consensus) (GetKernels block))))
   \<and> VerifyCoinbase_b (spec_Crypto H) consensus block =
     (sum_list (map out_commitment (filter (output_IsCoinbase consensus) (GetOutputs block)))
        - scalar_mult (unat (REWARD consensus) + total_fee block) H
      = sum_list (map kern_excess (filter (kernel_IsCoinbase consensus) (GetKernels block))))
   \<and> (VerifyCoinbase H consensus block = Inr ()) =
     (sum_list (map out_commitment (filter (output_IsCoinbase consensus) (GetOutputs block)))
      = sum_list (map kern_excess (filter (kernel_IsCoinbase consensus) (GetKernels block)))
        + scalar_mult (unat (REWARD consensus) + total_fee block) H)"
proof -
  note exact = unat_reward_plus_fees_exact [OF assms]
  have "(VerifyCoinbase H consensus block = Inr ()) =
     (sum_list (map out_commitment (filter (output_IsCoinbase consensus) (GetOutputs block)))
      = sum_list (map kern_excess (filter (kernel_IsCoinbase consensus) (GetKernels block)))
        + scalar_mult (unat (REWARD consensus) + total_fee block) H)"
    unfolding VerifyCoinbase_ok_iff exact by (auto simp: algebra_simps)
  then show ?thesis
    using VerifyCoinbase_ok_iff [of H consensus block]
      VerifyCoinbase_throws_iff [of H consensus block]
      VerifyCoinbase_b_spec_iff [of H consensus block]
    unfolding exact
    by blast
qed

theorem VerifyCoinbase_accepts_iff_witness:
  "unat (REWARD example_consensus) + total_fee coinbase_only_block < 2 ^ 64
   \<and> unat (REWARD example_consensus) + total_fee bad_coinbase_block < 2 ^ 64
   \<and> VerifyCoinbase example_H example_consensus coinbase_only_block = Inr ()
   \<and> VerifyCoinbase_b (spec_Crypto example_H) example_consensus coinbase_only_block
   \<and> VerifyCoinbase example_H example_consensus bad_coinbase_block
       = Inl (BadDataException ''Failed to validate coinbase'')
   \<and> \<not> VerifyCoinbase_b (spec_Crypto example_H) example_consensus bad_coinbase_block"
proof -
  have fits: "unat (REWARD example_consensus) + total_fee coinbase_only_block < 2 ^ 64"
    "unat (REWARD example_consensus) + total_fee bad_coinbase_block < 2 ^ 64"
    by (simp_all add: total_fee_examples example_consensus_def)
  show ?thesis
    using fits VerifyCoinbase_accepts_iff [OF fits(1), of example_H]
      VerifyCoinbase_accepts_iff [OF fits(2), of example_H]
    by (simp add: total_fee_examples) (simp add: example_defs scalar_mult_pair)
qed

text \<open>
  Claim C3 as stated fails where the reward plus the fees does not fit in 64 bits: the
  code adds the fees to the reward in \<open>uint64_t\<close>. In the block below the sum is
  \<open>2 ^ 64 + 7\<close>; both validators accept its coinbase output of 7 units, although the
  output sum minus \<open>(2 ^ 64 + 7)\<cdot>H\<close> is not the kernel sum.
\<close>

theorem VerifyCoinbase_accepts_on_fee_overflow:
  "VerifyCoinbase example_H example_consensus overflowing_fee_block = Inr ()
   \<and> VerifyCoinbase_b (spec_Crypto example_H) example_consensus overflowing_fee_block
   \<and> unat (REWARD example_consensus) + total_fee overflowing_fee_block = 2 ^ 64 + 7
   \<and> sum_list (map out_commitment
        (filter (output_IsCoinbase example_consensus) (GetOutputs overflowing_fee_block)))
       - scalar_mult (unat (REWARD example_consensus) + total_fee overflowing_fee_block) example_H
     \<noteq> sum_list (map kern_excess
        (filter (kernel_IsCoinbase example_consensus) (GetKernels overflowing_fee_block)))"
proof -
  have 1: "VerifyCoinbase example_H example_consensus overflowing_fee_block = Inr ()"
    by (simp add: VerifyCoinbase_ok_iff overflowing_fee_block_def example_defs scalar_mult_pair)
  have 2: "VerifyCoinbase_b (spec_Crypto example_H) example_consensus overflowing_fee_block"
    by (simp add: VerifyCoinbase_b_spec_iff overflowing_fee_block_def example_defs
          scalar_mult_pair)
  have 3: "unat (REWARD example_consensus) + total_fee overflowing_fee_block = 2 ^ 64 + 7"
    by (simp add: total_fee_def overflowing_fee_block_def example_defs)
  have 4: "sum_list (map out_commitment
        (filter (output_IsCoinbase example_consensus) (GetOutputs overflowing_fee_block)))
       - scalar_mult (unat (REWARD example_consensus) + total_fee overflowing_fee_block) example_H
     \<noteq> sum_list (map kern_excess
        (filter (kernel_IsCoinbase example_consensus) (GetKernels overflowing_fee_block)))"
    unfolding 3 by (simp add: overflowing_fee_block_def example_defs scalar_mult_pair)
  from 1 2 3 4 show ?thesis by blast
qed

section \<open>Errors of body validation\<close>

text \<open>
  Claim C5. Whatever exception the body validator throws, \<open>VerifyBody\<close> throws the
  \<open>BadData\<close> exception "Failed to validate transaction body" in its place, and so does
  \<open>VerifySelfConsistent\<close> on a block not yet marked as validated; \<open>VerifyBody\<close> throws
  nothing else, so no lower-level error class of body checking reaches its callers.
\<close>

theorem VerifyBody_lifts_to_BadData:
  "(\<forall>e. Validate (m_transactionBody block) False = Inl e \<longrightarrow>
       VerifyBody Validate block = Inl (BadDataException ''Failed to validate transaction body'')
       \<and> (\<not> WasValidated block \<longrightarrow>
            VerifySelfConsistent Validate H consensus block
              = Inl (BadDataException ''Failed to validate transaction body'')))
   \<and> (\<forall>e. VerifyBody Validate block = Inl e \<longrightarrow>
         e = BadDataException ''Failed to validate transaction body'')"
  by (auto simp: VerifyBody_def VerifySelfConsistent_def split: sum.splits)

theorem VerifyBody_lifts_to_BadData_witness:
  "Validate_throws (m_transactionBody coinbase_only_block) False
       = Inl (CryptoException ''InvalidSignature'')
   \<and> VerifyBody Validate_throws coinbase_only_block
       = Inl (BadDataException ''Failed to validate transaction body'')
   \<and> VerifySelfConsistent Validate_throws example_H example_consensus coinbase_only_block
       = Inl (BadDataException ''Failed to validate transaction body'')"
proof -
  have thrown: "Validate_throws (m_transactionBody coinbase_only_block) False
       = Inl (CryptoException ''InvalidSignature'')"
    by (simp add: Validate_throws_def)
  have nv: "\<not> WasValidated coinbase_only_block"
    by (simp add: WasValidated_def example_defs)
  from VerifyBody_lifts_to_BadData [of Validate_throws coinbase_only_block example_H
      example_consensus] thrown nv
  show ?thesis by blast
qed

section \<open>The validated flag\<close>

text \<open>
  Claim C8. If \<open>VerifySelfConsistent\<close> returns without throwing, the block is marked as
  validated afterwards, and every later call on that block returns at once and leaves it
  as it is, whatever body validator and constants it is given (so none of the three
  checks is run again). The flag is set only after the body check, the lock-height check
  and the coinbase check have all passed; a call that throws was made on a block whose
  flag is not set.
\<close>

theorem VerifySelfConsistent_idempotent:
  "(\<forall>block'. VerifySelfConsistent Validate H consensus block = Inr block' \<longrightarrow>
       WasValidated block'
       \<and> (\<forall>Validate' H' consensus'.
             VerifySelfConsistent Validate' H' consensus' block' = Inr block')
       \<and> (WasValidated block \<longrightarrow> block' = block)
       \<and> (\<not> WasValidated block \<longrightarrow>
            VerifyBody Validate block = Inr ()
            \<and> VerifyKernelLockHeights block = Inr ()
            \<and> VerifyCoinbase H consensus block = Inr ()
            \<and> block' = MarkAsValidated block))
   \<and> (\<forall>e. VerifySelfConsistent Validate H consensus block = Inl e \<longrightarrow> \<not> WasValidated block)"
  by (auto simp: VerifySelfConsistent_def WasValidated_def MarkAsValidated_def
        split: sum.splits if_splits)

theorem VerifySelfConsistent_idempotent_witness:
  "VerifySelfConsistent Validate_ok example_H example_consensus coinbase_only_block
       = Inr (MarkAsValidated coinbase_only_block)
   \<and> WasValidated (MarkAsValidated coinbase_only_block)
   \<and> VerifySelfConsistent Validate_throws example_G example_consensus
        (MarkAsValidated coinbase_only_block) = Inr (MarkAsValidated coinbase_only_block)"
proof -
  have nv: "\<not> WasValidated coinbase_only_block"
    by (simp add: WasValidated_def example_defs)
  have lk: "VerifyKernelLockHeights coinbase_only_block = Inr ()"
    by (simp add: VerifyKernelLockHeights_ok_iff example_defs)
  have cb: "VerifyCoinbase example_H example_consensus coinbase_only_block = Inr ()"
    by (simp add: VerifyCoinbase_ok_iff example_defs scalar_mult_pair)
  have run: "VerifySelfConsistent Validate_ok example_H example_consensus coinbase_only_block
       = Inr (MarkAsValidated coinbase_only_block)"
    using nv lk cb by (simp add: VerifySelfConsistent_def VerifyBody_def Validate_ok_def)
  from VerifySelfConsistent_idempotent [of Validate_ok example_H example_consensus
      coinbase_only_block] run
  show ?thesis by blast
qed

section \<open>Kernel sums\<close>

text \<open>
  Claim C1 does not hold of the code: \<open>VerifyKernelSums\<close> returns true for every block,
  so \<open>IsBlockValid\<close> accepts the block below, which passes the body, lock-height and
  coinbase checks but carries a plain output of 1000 units that no input, fee or reward
  pays for, and so breaks the commitment-sum identity (I1).
\<close>

theorem IsBlockValid_accepts_unbalanced_block:
  "IsBlockValid accept_body (spec_Crypto example_H) example_consensus inflating_block 0 True
   \<and> VerifyKernelSums inflating_block (0 - REWARD example_consensus) 0
   \<and> \<not> commitment_sum_identity example_H example_G example_consensus inflating_block 0"
proof -
  have cb: "VerifyCoinbase_b (spec_Crypto example_H) example_consensus inflating_block"
    by (simp add: VerifyCoinbase_b_spec_iff example_defs scalar_mult_pair)
  have lock: "VerifyKernelLockHeights_b inflating_block"
    by (simp add: VerifyKernelLockHeights_b_iff example_defs)
  have body: "accept_body (m_transactionBody inflating_block) True"
    by (simp add: accept_body_def)
  have off: "hdr_total_kernel_offset (m_pBlockHeader inflating_block) = 0"
    by (simp add: example_defs)
  have valid: "IsBlockValid accept_body (spec_Crypto example_H) example_consensus
      inflating_block 0 True"
    using cb lock body
    by (simp add: IsBlockValid_def IsBlockSelfConsistent_def VerifyKernelSums_def Let_def off
          spec_Crypto_def)
  have sums: "VerifyKernelSums inflating_block (0 - REWARD example_consensus) 0"
    by (simp add: VerifyKernelSums_def)
  have unbalanced:
    "\<not> commitment_sum_identity example_H example_G example_consensus inflating_block 0"
    by (simp add: commitment_sum_identity_def example_defs scalar_mult_pair)
  from valid sums unbalanced show ?thesis by blast
qed

section \<open>Shutdown\<close>

lemma deliver_True: "deliver evs True = True"
  by (induction evs) (auto simp: CtrlHandler_def split: ctrl_event.splits)

lemma deliver_without_ctrl_c: "CTRL_C_EVENT \<notin> set evs \<Longrightarrow> deliver evs b = b"
  by (induction evs arbitrary: b) (auto simp: CtrlHandler_def split: ctrl_event.splits)

lemma deliver_with_ctrl_c: "CTRL_C_EVENT \<in> set evs \<Longrightarrow> deliver evs b = True"
proof (induction evs arbitrary: b)
  case Nil
  then show ?case by simp
next
  case (Cons ev evs)
  show ?case
  proof (cases "ev = CTRL_C_EVENT")
    case True
    then show ?thesis by (simp add: CtrlHandler_def deliver_True)
  next
    case False
    with Cons.prems have "CTRL_C_EVENT \<in> set evs" by auto
    then show ?thesis using Cons.IH by simp
  qed
qed

lemma main_loop_exits:
  assumes "CTRL_C_EVENT \<in> set (signals n)"
    and "\<forall>j. i \<le> j \<and> j < n \<longrightarrow> CTRL_C_EVENT \<notin> set (signals j)"
    and "i \<le> n"
  shows "\<exists>iterations. length iterations = n - i
           \<and> (\<forall>j<n - i. loop_body (sync (i + j)) = Inr (iterations ! j))
           \<and> main_loop signals sync i False trace = Some (Inr (trace @ concat iterations))"
  using assms
proof (induction "n - i" arbitrary: i trace)
  case 0
  then have "i = n" by simp
  with 0 have "deliver (signals i) False = True"
    by (simp add: deliver_with_ctrl_c)
  then have "main_loop signals sync i False trace = Some (Inr trace)"
    by (subst main_loop.simps) simp
  with \<open>i = n\<close> show ?case by simp
next
  case (Suc d)
  then have lt: "i < n" by simp
  with Suc.prems have quiet: "deliver (signals i) False = False"
    by (simp add: deliver_without_ctrl_c)
  obtain acts where acts: "loop_body (sync i) = Inr acts"
    using loop_body_total by blast
  have step: "main_loop signals sync i False trace
      = main_loop signals sync (Suc i) False (trace @ acts)"
    by (subst main_loop.simps) (simp add: quiet acts)
  have "d = n - Suc i" using Suc.hyps(2) by simp
  moreover have "\<forall>j. Suc i \<le> j \<and> j < n \<longrightarrow> CTRL_C_EVENT \<notin> set (signals j)"
    using Suc.prems(2) by simp
  moreover have "Suc i \<le> n" using lt by simp
  ultimately obtain rest where rest: "length rest = n - Suc i"
      "\<forall>j<n - Suc i. loop_body (sync (Suc i + j)) = Inr (rest ! j)"
      "main_loop signals sync (Suc i) False (trace @ acts)
         = Some (Inr ((trace @ acts) @ concat rest))"
    using Suc.hyps(1) [of "Suc i" "trace @ acts"] Suc.prems(1) by blast
  have len: "length (acts # rest) = n - i"
    using rest(1) lt by simp
  have each: "\<forall>j<n - i. loop_body (sync (i + j)) = Inr ((acts # rest) ! j)"
  proof (intro allI impI)
    fix j assume j: "j < n - i"
    show "loop_body (sync (i + j)) = Inr ((acts # rest) ! j)"
    proof (cases j)
      case 0
      then show ?thesis by (simp add: acts)
    next
      case (Suc j')
      with j have "j' < n - Suc i" by simp
      with rest(2) have "loop_body (sync (Suc i + j')) = Inr (rest ! j')" by blast
      with Suc show ?thesis by simp
    qed
  qed
  have "main_loop signals sync i False trace = Some (Inr (trace @ concat (acts # rest)))"
    using step rest(3) by simp
  with len each show ?case by blast
qed

text \<open>
  Claim C7. Once the \<open>SHUTDOWN\<close> flag is set (the Ctrl-C handler sets it, and nothing
  resets it), the main loop of \<open>Server::Run\<close> exits at its next reading of the flag: if
  the first Ctrl-C arrives before the \<open>n\<close>-th reading, \<open>Run\<close> returns after exactly
  \<open>n\<close> full iterations, and what it does after the last of them is, in this order:
  announce the shutdown, shut down the REST server, the P2P server, the transaction pool,
  the blockchain server, the TxHashSet manager and the database, and flush the logger. No
  iteration runs after the flag was read as set.
\<close>

theorem Run_shuts_down_on_flag:
  assumes "CTRL_C_EVENT \<in> set (signals n)"
    and "\<forall>i<n. CTRL_C_EVENT \<notin> set (signals i)"
  shows "\<exists>iterations. length iterations = n
           \<and> (\<forall>i<n. loop_body (sync i) = Inr (iterations ! i))
           \<and> Run signals sync =
               Some (Inr (startup @ concat iterations @
                 [Cout ShuttingDown, NodeRestServerShutdown, ShutdownP2PServer,
                  DestroyTransactionPool, ShutdownBlockChainServer, DeleteTxHashSetManager,
                  CloseDatabase, LoggerFlush]))"
proof -
  from assms obtain iterations where it: "length iterations = n - 0"
      "\<forall>j<n - 0. loop_body (sync (0 + j)) = Inr (iterations ! j)"
      "main_loop signals sync 0 False startup = Some (Inr (startup @ concat iterations))"
    using main_loop_exits [of signals n 0 sync startup] by auto
  then have "Run signals sync = Some (Inr ((startup @ concat iterations) @ shutdown))"
    by (simp add: Run_def)
  with it show ?thesis
    by (auto simp: shutdown_def)
qed

theorem Run_shuts_down_on_flag_witness:
  "CTRL_C_EVENT \<in> set (ctrl_c_before_third_check 2)
   \<and> CTRL_C_EVENT \<notin> set (ctrl_c_before_third_check 0)
   \<and> CTRL_C_EVENT \<notin> set (ctrl_c_before_third_check 1)
   \<and> (\<exists>first second.
         loop_body (always_running 0) = Inr first
         \<and> loop_body (always_running 1) = Inr second
         \<and> Run ctrl_c_before_third_check always_running =
             Some (Inr (startup @ first @ second @
               [Cout ShuttingDown, NodeRestServerShutdown, ShutdownP2PServer,
                DestroyTransactionPool, ShutdownBlockChainServer, DeleteTxHashSetManager,
                CloseDatabase, LoggerFlush])))"
proof -
  have h1: "CTRL_C_EVENT \<in> set (ctrl_c_before_third_check 2)"
    by (simp add: ctrl_c_before_third_check_def)
  have h2: "\<forall>i<2. CTRL_C_EVENT \<notin> set (ctrl_c_before_third_check i)"
    by (simp add: ctrl_c_before_third_check_def)
  from Run_shuts_down_on_flag [OF h1 h2, of always_running]
  obtain iterations where it: "length iterations = 2"
      "\<forall>i<2. loop_body (always_running i) = Inr (iterations ! i)"
      "Run ctrl_c_before_third_check always_running =
         Some (Inr (startup @ concat iterations @
           [Cout ShuttingDown, NodeRestServerShutdown, ShutdownP2PServer,
            DestroyTransactionPool, ShutdownBlockChainServer, DeleteTxHashSetManager,
            CloseDatabase, LoggerFlush]))"
    by blast
  from it(1) obtain first second where shape: "iterations = [first, second]"
    by (cases iterations; cases "tl iterations"; cases "tl (tl iterations)") auto
  from it(2) shape have "loop_body (always_running 0) = Inr first"
      "loop_body (always_running 1) = Inr second"
    by (auto simp: less_Suc_eq numeral_2_eq_2)
  moreover from it(3) shape have "Run ctrl_c_before_third_check always_running =
         Some (Inr (startup @ first @ second @
           [Cout ShuttingDown, NodeRestServerShutdown, ShutdownP2PServer,
            DestroyTransactionPool, ShutdownBlockChainServer, DeleteTxHashSetManager,
            CloseDatabase, LoggerFlush]))"
    by simp
  ultimately show ?thesis
    using h1 h2 by (auto simp: ctrl_c_before_third_check_def)
qed

section \<open>The aggregate signature\<close>









section \<open>The foreign RPC methods\<close>

text \<open>
  Claim C6. \<open>NodeServer::Create\<close> registers on the \<open>/v2/foreign\<close> server exactly the
  five methods \<open>get_header\<close>, \<open>get_block\<close>, \<open>get_version\<close>, \<open>get_tip\<close> and
  \<open>push_transaction\<close>, each bound to its handler, and no other name; the owner server
  it creates beside it has no method.
\<close>

theorem NodeServer_Create_foreign_methods:
  "dom (rpc_methods (m_pForeignServer (NodeServer_Create pServer pBlockChain pP2PServer)))
     = {''get_header'', ''get_block'', ''get_version'', ''get_tip'', ''push_transaction''}
   \<and> rpc_uri (m_pForeignServer (NodeServer_Create pServer pBlockChain pP2PServer))
       = ''/v2/foreign''
   \<and> rpc_methods (m_pForeignServer (NodeServer_Create pServer pBlockChain pP2PServer))
         ''get_header'' = Some (GetHeaderHandler pBlockChain)
   \<and> rpc_methods (m_pForeignServer (NodeServer_Create pServer pBlockChain pP2PServer))
         ''get_block'' = Some (GetBlockHandler pBlockChain)
   \<and> rpc_methods (m_pForeignServer (NodeServer_Create pServer pBlockChain pP2PServer))
         ''get_version'' = Some (GetVersionHandler pBlockChain)
   \<and> rpc_methods (m_pForeignServer (NodeServer_Create pServer pBlockChain pP2PServer))
         ''get_tip'' = Some (GetTipHandler pBlockChain)
   \<and> rpc_methods (m_pForeignServer (NodeServer_Create pServer pBlockChain pP2PServer))
         ''push_transaction'' = Some (PushTransactionHandler pBlockChain pP2PServer)
   \<and> rpc_uri (m_pOwnerServer (NodeServer_Create pServer pBlockChain pP2PServer)) = ''/v2/owner''
   \<and> dom (rpc_methods (m_pOwnerServer (NodeServer_Create pServer pBlockChain pP2PServer))) = {}"
  by (auto simp: NodeServer_Create_def RPCServer_Create_def AddMethod_def Let_def)

section \<open>Restoring a wallet\<close>

text \<open>
  Claim C9. \<open>WalletManager::Restore\<close> returns a session token if and only if the
  mnemonic decodes (with the given password) to an entropy of exactly 32 bytes and the
  wallet database creates the wallet for that user name; the token is then the one the
  login of that user with that seed returns. In every other case it returns
  \<open>nullopt\<close> and the session manager is left as it was: no login session is created.
\<close>

theorem Restore_returns_token_iff:
  "(fst (Restore deps wm username password walletWords) \<noteq> None)
     = (\<exists>entropy. ToEntropy deps walletWords (Some password) = Some entropy
          \<and> length entropy = 32
          \<and> fst (CreateWallet deps (m_pWalletDB wm) username
                   (EncryptWalletSeed deps entropy password)))
   \<and> (fst (Restore deps wm username password walletWords) = None \<longrightarrow>
        m_sessionManager (snd (Restore deps wm username password walletWords))
          = m_sessionManager wm)
   \<and> (\<forall>token. fst (Restore deps wm username password walletWords) = Some token \<longrightarrow>
        (\<exists>entropy. ToEntropy deps walletWords (Some password) = Some entropy
           \<and> Login deps (m_sessionManager wm) username entropy
               = (token, m_sessionManager (snd (Restore deps wm username password walletWords)))))"
  by (auto simp: Restore_def Let_def split: option.splits prod.splits if_splits)

theorem Restore_returns_token_iff_witness:
  "fst (Restore example_deps example_wallet_manager ''alice'' ''secret'' ''twenty four words'')
     = Some 0
   \<and> fst (Restore example_deps example_wallet_manager ''alice'' ''secret'' ''twelve words'') = None
   \<and> fst (Restore example_deps example_wallet_manager ''alice'' ''secret'' ''no words'') = None
   \<and> fst (Restore example_deps example_wallet_manager ''bob'' ''secret'' ''twenty four words'')
     = None
   \<and> m_sessionManager
        (snd (Restore example_deps example_wallet_manager ''bob'' ''secret'' ''twenty four words''))
     = []"
proof -
  note t = Restore_returns_token_iff [of example_deps example_wallet_manager _ "''secret''"]
  have a: "fst (Restore example_deps example_wallet_manager ''alice'' ''secret''
      ''twenty four words'') \<noteq> None"
    using t [of "''alice''" "''twenty four words''"]
    by (simp add: example_deps_def example_wallet_manager_def)
  then obtain token where tok: "fst (Restore example_deps example_wallet_manager ''alice''
      ''secret'' ''twenty four words'') = Some token"
    by blast
  with t [of "''alice''" "''twenty four words''"] have "token = 0"
    by (auto simp: example_deps_def example_wallet_manager_def)
  with tok have 1: "fst (Restore example_deps example_wallet_manager ''alice'' ''secret''
      ''twenty four words'') = Some 0"
    by simp
  have 2: "fst (Restore example_deps example_wallet_manager ''alice'' ''secret'' ''twelve words'')
      = None"
    using t [of "''alice''" "''twelve words''"]
    by (simp add: example_deps_def example_wallet_manager_def)
  have 3: "fst (Restore example_deps example_wallet_manager ''alice'' ''secret'' ''no words'')
      = None"
    using t [of "''alice''" "''no words''"]
    by (simp add: example_deps_def example_wallet_manager_def)
  have 4: "fst (Restore example_deps example_wallet_manager ''bob'' ''secret''
      ''twenty four words'') = None"
    using t [of "''bob''" "''twenty four words''"]
    by (simp add: example_deps_def example_wallet_manager_def)
  with t [of "''bob''" "''twenty four words''"]
  have 5: "m_sessionManager (snd (Restore example_deps example_wallet_manager ''bob'' ''secret''
      ''twenty four words'')) = []"
    by (simp add: example_wallet_manager_def)
  from 1 2 3 4 5 show ?thesis by blast
qed

end
